theory Spec2Isabelle
  imports Complex_Main "HOL-Library.Word" "HOL-Library.Sublist"
begin

section \<open>Data model\<close>

text \<open>
  The live voice interface (components/LiveInterface.tsx) and the LiveSession class
  (the geminiService part of constants.ts).  A \<open>Uint8Array\<close> is a list of 8-bit words; a
  nullable React ref is an \<open>option\<close>; an exception is a value of type \<open>error\<close>.

  The JavaScript numbers that hold times (the cursor, the clock, durations) are values of a
  type \<open>'t\<close> that the model leaves open.  The code compares them, takes \<open>Math.max\<close> and
  adds them, so the definitions ask for an order and a \<open>+\<close> on \<open>'t\<close>; nothing is
  assumed of \<open>+\<close>, which for the doubles of the code is the rounded sum.  What is proved
  for every such type holds of the code's numbers (NaN aside, where they are not ordered);
  a property that needs a law of addition is stated for real numbers and says so.
\<close>

type_synonym bytes = "8 word list"

datatype error = TypeError | Failure string

datatype status = Connecting | Active | Error | Disconnected

datatype ctx_state = Running | Closed

datatype track_state = Live | Ended

datatype promise_state = Pending | Fulfilled | Rejected

record 't audio_buffer =
  duration :: 't

record audio_context =
  sampleRate :: nat
  ctx_state :: ctx_state

record media_stream =
  tracks :: "track_state list"

record script_processor =
  onaudioprocess :: bool
  wired :: bool

record media =
  mimeType :: string
  data :: string

text \<open>
  A LiveSession object.  \<open>sessionPromise\<close> is the class field (null until \<open>connect\<close>).
  The other three fields are the part of the environment the methods act on: the bodies of
  \<open>sendAudio\<close> calls suspended at \<open>await this.sessionPromise\<close> (each holds the
  \<open>base64Data\<close> it computed before the await, in the order the awaits were reached), the
  calls of \<open>session.sendRealtimeInput\<close> made so far, and whether the remote connection is
  open.  LiveInterface calls \<open>connect\<close> once on each LiveSession it constructs, so one
  promise per object is tracked.
\<close>

record live_session =
  sessionPromise :: "promise_state option"
  awaiting :: "string list"
  sent :: "media list"
  remote_open :: bool

text \<open>
  A \<open>playAudio\<close> call suspended at \<open>await decodeAudioData(...)\<close>: the bytes it
  decoded from base64 before the await.  \<open>read_clock\<close> remembers the value of
  \<open>ctx.currentTime\<close> that the call read at its resync step; no code reads it back.
\<close>

record 't pending_decode =
  audioBytes :: bytes
  read_clock :: 't

text \<open>
  One call \<open>source.start(nextStartTimeRef.current)\<close> on the output device: the buffer,
  the start time passed, the output clock when the call was made, and the clock value the
  same \<open>playAudio\<close> invocation had read at its resync step.
\<close>

record 't start_call =
  buffer :: "'t audio_buffer"
  start_time :: 't
  called_at :: 't
  resync_clock :: 't

text \<open>
  The component: its \<open>status\<close> state, its six refs, and the environment it acts on
  (the output context's clock, the calls of \<open>source.start\<close>, the suspended
  \<open>playAudio\<close> calls, promise rejections nobody handles, the console).
\<close>

record 't live_interface =
  status :: status
  sessionRef :: "live_session option"
  inputCtxRef :: "audio_context option"
  outputCtxRef :: "audio_context option"
  nextStartTimeRef :: 't
  processorRef :: "script_processor option"
  streamRef :: "media_stream option"
  outputTime :: 't
  started :: "'t start_call list"
  decoding :: "'t pending_decode list"
  unhandled :: "error list"
  console :: "string list"

text \<open>
  The module services/audioUtils is imported by both files but is not among the sources;
  its four functions are parameters of the model.  The two decoders may throw.
\<close>

record 't audioUtils =
  b64ToUint8Array :: "string \<Rightarrow> error + bytes"
  decodeAudioData :: "bytes \<Rightarrow> nat \<Rightarrow> nat \<Rightarrow> error + 't audio_buffer"
  convertFloat32ToInt16 :: "real list \<Rightarrow> bytes"
  arrayBufferToBase64 :: "bytes \<Rightarrow> string"

definition and_then :: "error + 'a \<Rightarrow> ('a \<Rightarrow> error + 'b) \<Rightarrow> error + 'b" where
  "and_then r f = (case r of Inl e \<Rightarrow> Inl e | Inr x \<Rightarrow> f x)"


section \<open>PCM codec: base64\<close>

text \<open>
  Modelled from the spec: \<open>bytesToBase64\<close> and \<open>base64ToBytes\<close> are "standard
  reversible binary-to-text transcoding" (section 4.1); their code, \<open>arrayBufferToBase64\<close>
  and \<open>b64ToUint8Array\<close> of services/audioUtils, is not among the sources.  Standard base64
  has this alphabet and pads with \<open>=\<close>.
\<close>

definition base64_alphabet :: string where
  "base64_alphabet = ''ABCDEFGHIJKLMNOPQRSTUVWXYZabcdefghijklmnopqrstuvwxyz0123456789+/''"

definition base64_pad :: char where
  "base64_pad = CHR ''=''"

definition sextet_char :: "nat \<Rightarrow> char" where
  "sextet_char n = base64_alphabet ! n"

fun index_of :: "'a \<Rightarrow> 'a list \<Rightarrow> nat option" where
  "index_of x [] = None"
| "index_of x (y # ys) = (if x = y then Some 0 else map_option Suc (index_of x ys))"

definition char_sextet :: "char \<Rightarrow> nat option" where
  "char_sextet c = index_of c base64_alphabet"

text \<open>
  Modelled from the spec: the encoder \<open>bytesToBase64\<close>.  Three bytes give four 6-bit
  digits; one or two remaining bytes give two or three digits and padding.
\<close>

fun bytesToBase64 :: "bytes \<Rightarrow> string" where
  "bytesToBase64 [] = []"
| "bytesToBase64 [a] =
     [sextet_char (unat a div 4), sextet_char (unat a mod 4 * 16), base64_pad, base64_pad]"
| "bytesToBase64 [a, b] =
     [sextet_char (unat a div 4), sextet_char (unat a mod 4 * 16 + unat b div 16),
      sextet_char (unat b mod 16 * 4), base64_pad]"
| "bytesToBase64 (a # b # c # rest) =
     [sextet_char (unat a div 4), sextet_char (unat a mod 4 * 16 + unat b div 16),
      sextet_char (unat b mod 16 * 4 + unat c div 64), sextet_char (unat c mod 64)]
     @ bytesToBase64 rest"

text \<open>
  Modelled from the spec: the decoder \<open>base64ToBytes\<close>.  Four digits give three bytes;
  padding is accepted in the last group only; anything else is refused.
\<close>

definition invalid :: error where
  "invalid = Failure ''InvalidCharacterError''"

definition byte1 :: "nat \<Rightarrow> nat \<Rightarrow> 8 word" where
  "byte1 s1 s2 = of_nat (s1 * 4 + s2 div 16)"

definition byte2 :: "nat \<Rightarrow> nat \<Rightarrow> 8 word" where
  "byte2 s2 s3 = of_nat (s2 mod 16 * 16 + s3 div 4)"

definition byte3 :: "nat \<Rightarrow> nat \<Rightarrow> 8 word" where
  "byte3 s3 s4 = of_nat (s3 mod 4 * 64 + s4)"

fun base64ToBytes :: "string \<Rightarrow> error + bytes" where
  "base64ToBytes [] = Inr []"
| "base64ToBytes (c1 # c2 # c3 # c4 # rest) =
     (case (char_sextet c1, char_sextet c2) of
        (Some s1, Some s2) \<Rightarrow>
          (if rest = [] \<and> c3 = base64_pad \<and> c4 = base64_pad
           then Inr [byte1 s1 s2]
           else case char_sextet c3 of
                  None \<Rightarrow> Inl invalid
                | Some s3 \<Rightarrow>
                    (if rest = [] \<and> c4 = base64_pad
                     then Inr [byte1 s1 s2, byte2 s2 s3]
                     else case char_sextet c4 of
                            None \<Rightarrow> Inl invalid
                          | Some s4 \<Rightarrow>
                              (case base64ToBytes rest of
                                 Inl e \<Rightarrow> Inl e
                               | Inr bs \<Rightarrow> Inr (byte1 s1 s2 # byte2 s2 s3 # byte3 s3 s4 # bs))))
      | _ \<Rightarrow> Inl invalid)"
| "base64ToBytes _ = Inl invalid"


section \<open>LiveSession\<close>

definition new_LiveSession :: live_session where
  "new_LiveSession = \<lparr>sessionPromise = None, awaiting = [], sent = [], remote_open = False\<rparr>"

text \<open>\<open>connect\<close>: stores the promise returned by \<open>ai.live.connect\<close>.\<close>

definition connect :: "live_session \<Rightarrow> live_session" where
  "connect ls = ls\<lparr>sessionPromise := Some Pending\<rparr>"

text \<open>The handshake ends: the pending promise is fulfilled (the connection opens) or rejected.\<close>

definition settle :: "bool \<Rightarrow> live_session \<Rightarrow> live_session" where
  "settle ok ls =
     (if sessionPromise ls = Some Pending
      then (if ok then ls\<lparr>sessionPromise := Some Fulfilled, remote_open := True\<rparr>
            else ls\<lparr>sessionPromise := Some Rejected\<rparr>)
      else ls)"

text \<open>
  \<open>sendAudio\<close> up to its await: return at once when \<open>sessionPromise\<close> is null, otherwise
  encode the frame and suspend on the promise.
\<close>

definition sendAudio :: "'t audioUtils \<Rightarrow> real list \<Rightarrow> live_session \<Rightarrow> live_session" where
  "sendAudio U pcmData ls =
     (case sessionPromise ls of
        None \<Rightarrow> ls
      | Some p \<Rightarrow>
          (let int16Data = convertFloat32ToInt16 U pcmData;
               base64Data = arrayBufferToBase64 U int16Data
           in ls\<lparr>awaiting := awaiting ls @ [base64Data]\<rparr>))"

text \<open>
  The oldest suspended \<open>sendAudio\<close> call continues after its await (reactions of one
  promise run in the order they were registered): on a fulfilled promise it calls
  \<open>session.sendRealtimeInput\<close>, on a rejected one the await throws and the frame is lost;
  while the promise is pending nothing can continue.
\<close>

definition sendAudio_resume :: "live_session \<Rightarrow> live_session" where
  "sendAudio_resume ls =
     (case awaiting ls of
        [] \<Rightarrow> ls
      | base64Data # rest \<Rightarrow>
          (case sessionPromise ls of
             Some Fulfilled \<Rightarrow>
               ls\<lparr>awaiting := rest,
                  sent := sent ls @ [\<lparr>mimeType = ''audio/pcm;rate=16000'', data = base64Data\<rparr>]\<rparr>
           | Some Rejected \<Rightarrow> ls\<lparr>awaiting := rest\<rparr>
           | _ \<Rightarrow> ls))"

text \<open>\<open>disconnect\<close>: the body of its only branch is a comment.\<close>

definition disconnect :: "live_session \<Rightarrow> live_session" where
  "disconnect ls = (if sessionPromise ls \<noteq> None then ls else ls)"


section \<open>LiveInterface\<close>

subsection \<open>playAudio\<close>

text \<open>
  \<open>playAudio\<close> up to its await: return when there is no output context; resync the cursor
  to the output clock; decode the base64 text (a throw rejects the call's promise, which the
  caller \<open>(b64Audio) => playAudio(b64Audio)\<close> drops); suspend on \<open>decodeAudioData\<close>.
\<close>

definition playAudio :: "('t::ord) audioUtils \<Rightarrow> string \<Rightarrow> 't live_interface \<Rightarrow> 't live_interface" where
  "playAudio U base64Data s =
     (case outputCtxRef s of
        None \<Rightarrow> s
      | Some ctx \<Rightarrow>
          (let s1 = s\<lparr>nextStartTimeRef := max (nextStartTimeRef s) (outputTime s)\<rparr>
           in case b64ToUint8Array U base64Data of
                Inl e \<Rightarrow> s1\<lparr>unhandled := unhandled s1 @ [e]\<rparr>
              | Inr bs \<Rightarrow>
                  s1\<lparr>decoding := decoding s1 @ [\<lparr>audioBytes = bs, read_clock = outputTime s\<rparr>]\<rparr>))"

text \<open>
  The \<open>i\<close>-th suspended \<open>playAudio\<close> call continues after its await: a failed decode
  rejects the call's promise; a decoded buffer is started at the cursor and the cursor
  advances by its duration.
\<close>

definition playAudio_resume :: "('t::plus) audioUtils \<Rightarrow> nat \<Rightarrow> 't live_interface \<Rightarrow> 't live_interface" where
  "playAudio_resume U i s =
     (if i < length (decoding s)
      then (let p = decoding s ! i;
                s1 = s\<lparr>decoding := take i (decoding s) @ drop (Suc i) (decoding s)\<rparr>
            in case decodeAudioData U (audioBytes p) 24000 1 of
                 Inl e \<Rightarrow> s1\<lparr>unhandled := unhandled s1 @ [e]\<rparr>
               | Inr audioBuffer \<Rightarrow>
                   s1\<lparr>started := started s1 @
                         [\<lparr>buffer = audioBuffer, start_time = nextStartTimeRef s1,
                           called_at = outputTime s1, resync_clock = read_clock p\<rparr>],
                      nextStartTimeRef := nextStartTimeRef s1 + duration audioBuffer\<rparr>)
      else s)"

subsection \<open>stopSession\<close>

text \<open>
  A method call on a ref's target throws a TypeError when the target is null; the guards of
  \<open>stopSession\<close> are what keeps it from happening.  Stopping an ended track and
  disconnecting a node without connections do nothing.  \<open>close()\<close> on a context that
  is already closed returns a promise rejected with an InvalidStateError, and
  \<open>stopSession\<close> drops the promises it gets.
\<close>

definition already_closed :: error where
  "already_closed = Failure ''InvalidStateError''"

definition stop_tracks :: "'t live_interface \<Rightarrow> error + 't live_interface" where
  "stop_tracks s =
     (case streamRef s of
        None \<Rightarrow> Inl TypeError
      | Some st \<Rightarrow> Inr (s\<lparr>streamRef := Some (st\<lparr>tracks := map (\<lambda>t. Ended) (tracks st)\<rparr>)\<rparr>))"

definition processor_disconnect :: "'t live_interface \<Rightarrow> error + 't live_interface" where
  "processor_disconnect s =
     (case processorRef s of
        None \<Rightarrow> Inl TypeError
      | Some p \<Rightarrow> Inr (s\<lparr>processorRef := Some (p\<lparr>wired := False\<rparr>)\<rparr>))"

definition close_input :: "'t live_interface \<Rightarrow> error + 't live_interface" where
  "close_input s =
     (case inputCtxRef s of
        None \<Rightarrow> Inl TypeError
      | Some c \<Rightarrow>
          Inr (if ctx_state c = Closed then s\<lparr>unhandled := unhandled s @ [already_closed]\<rparr>
               else s\<lparr>inputCtxRef := Some (c\<lparr>ctx_state := Closed\<rparr>)\<rparr>))"

definition close_output :: "'t live_interface \<Rightarrow> error + 't live_interface" where
  "close_output s =
     (case outputCtxRef s of
        None \<Rightarrow> Inl TypeError
      | Some c \<Rightarrow>
          Inr (if ctx_state c = Closed then s\<lparr>unhandled := unhandled s @ [already_closed]\<rparr>
               else s\<lparr>outputCtxRef := Some (c\<lparr>ctx_state := Closed\<rparr>)\<rparr>))"

definition stopSession :: "'t live_interface \<Rightarrow> error + 't live_interface" where
  "stopSession s =
     and_then (if streamRef s \<noteq> None then stop_tracks s else Inr s) (\<lambda>s1.
     and_then (if processorRef s1 \<noteq> None then processor_disconnect s1 else Inr s1) (\<lambda>s2.
     and_then (if inputCtxRef s2 \<noteq> None then close_input s2 else Inr s2) (\<lambda>s3.
     and_then (if outputCtxRef s3 \<noteq> None then close_output s3 else Inr s3) (\<lambda>s4.
       Inr (case sessionRef s4 of
              None \<Rightarrow> s4
            | Some ls \<Rightarrow> s4\<lparr>sessionRef := Some (disconnect ls)\<rparr>)))))"

subsection \<open>Callbacks of the session\<close>

text \<open>
  The callbacks that \<open>connect\<close> registers.  \<open>onopen\<close> and \<open>onerror\<close> log;
  \<open>onclose\<close> logs and calls the component's \<open>onClose\<close>, which is
  \<open>() => setStatus('disconnected')\<close>.  \<open>onmessage\<close> hands the audio data of a
  message to \<open>playAudio\<close>, which is the event \<open>Chunk\<close> below; a message without
  audio data is no event for the component.
\<close>

definition onopen :: "'t live_interface \<Rightarrow> 't live_interface" where
  "onopen s = s\<lparr>console := console s @ [''Live Session Opened'']\<rparr>"

definition onerror :: "'t live_interface \<Rightarrow> 't live_interface" where
  "onerror s = s\<lparr>console := console s @ [''Live Error'']\<rparr>"

definition onclose :: "'t live_interface \<Rightarrow> 't live_interface" where
  "onclose s = s\<lparr>console := console s @ [''Live Session Closed''], status := Disconnected\<rparr>"

subsection \<open>startSession\<close>

text \<open>
  \<open>startSession\<close> has two awaits and one \<open>try\<close> around its whole body.  The three
  definitions are its three stretches: up to \<open>await getUserMedia\<close>; from the microphone
  answer up to \<open>await connect()\<close>; from the end of the handshake to the end.  Anything
  thrown lands in the \<open>catch\<close>, which logs and sets the status to \<open>error\<close>; a method
  call on a null ref throws.  The promise awaited last is the one stored in the session the
  ref holds, so the last stretch finds it there.
\<close>

definition mounted :: "('t::zero) live_interface" where
  "mounted =
     \<lparr>status = Connecting, sessionRef = None, inputCtxRef = None, outputCtxRef = None,
      nextStartTimeRef = 0, processorRef = None, streamRef = None,
      outputTime = 0, started = [], decoding = [], unhandled = [], console = []\<rparr>"

definition new_AudioContext :: "nat \<Rightarrow> audio_context" where
  "new_AudioContext rate = \<lparr>sampleRate = rate, ctx_state = Running\<rparr>"

definition start_failed :: "'t live_interface \<Rightarrow> 't live_interface" where
  "start_failed s = s\<lparr>console := console s @ [''Failed to start live session''], status := Error\<rparr>"

definition startSession :: "'t live_interface \<Rightarrow> 't live_interface" where
  "startSession s =
     s\<lparr>outputCtxRef := Some (new_AudioContext 24000),
       inputCtxRef := Some (new_AudioContext 16000)\<rparr>"

definition startSession_media :: "error + media_stream \<Rightarrow> 't live_interface \<Rightarrow> 't live_interface" where
  "startSession_media r s =
     (case r of
        Inl e \<Rightarrow> start_failed s
      | Inr stream \<Rightarrow>
          (let s1 = s\<lparr>streamRef := Some stream\<rparr>
           in case inputCtxRef s1 of
                None \<Rightarrow> start_failed s1
              | Some c \<Rightarrow>
                  s1\<lparr>processorRef := Some \<lparr>onaudioprocess = False, wired = False\<rparr>,
                     sessionRef := Some (connect new_LiveSession)\<rparr>))"

definition startSession_connected :: "bool \<Rightarrow> 't live_interface \<Rightarrow> 't live_interface" where
  "startSession_connected ok s =
     (case sessionRef s of
        None \<Rightarrow> start_failed s
      | Some ls \<Rightarrow>
          (let s1 = s\<lparr>sessionRef := Some (settle ok ls)\<rparr>
           in if \<not> ok then start_failed s1
              else (let s2 = (onopen s1)\<lparr>status := Active\<rparr>
                    in case processorRef s2 of
                         None \<Rightarrow> start_failed s2
                       | Some p \<Rightarrow>
                           (case inputCtxRef s2 of
                              None \<Rightarrow> start_failed (s2\<lparr>processorRef := Some (p\<lparr>onaudioprocess := True\<rparr>)\<rparr>)
                            | Some c \<Rightarrow>
                                s2\<lparr>processorRef := Some (p\<lparr>onaudioprocess := True, wired := True\<rparr>)\<rparr>))))"

subsection \<open>Events\<close>

text \<open>The \<open>onaudioprocess\<close> handler: \<open>sessionRef.current?.sendAudio(inputData)\<close>.\<close>

definition audioprocess :: "'t audioUtils \<Rightarrow> real list \<Rightarrow> 't live_interface \<Rightarrow> 't live_interface" where
  "audioprocess U inputData s =
     (case sessionRef s of
        None \<Rightarrow> s
      | Some ls \<Rightarrow> s\<lparr>sessionRef := Some (sendAudio U inputData ls)\<rparr>)"

text \<open>
  What can happen to a mounted component: the output clock advances; the session hands an
  inbound chunk to \<open>playAudio\<close>; a suspended \<open>playAudio\<close> continues; the capture node
  fires (only once its handler is installed); a suspended \<open>sendAudio\<close> continues; the
  connection reports an error; the remote side closes the connection; the component
  unmounts (\<open>stopSession\<close>).  \<open>Tick\<close> adds any amount to the clock: no property below
  needs the clock to be monotone.
\<close>

datatype 't event =
    Tick 't
  | Chunk string
  | DecodeDone nat
  | AudioProcess "real list"
  | SendResume
  | RemoteError
  | RemoteClose
  | Stop

fun step :: "('t::{plus,ord}) audioUtils \<Rightarrow> 't event \<Rightarrow> 't live_interface \<Rightarrow> 't live_interface" where
  "step U (Tick dt) s = s\<lparr>outputTime := outputTime s + dt\<rparr>"
| "step U (Chunk base64Data) s = playAudio U base64Data s"
| "step U (DecodeDone i) s = playAudio_resume U i s"
| "step U (AudioProcess inputData) s =
     (case processorRef s of
        None \<Rightarrow> s
      | Some p \<Rightarrow> if onaudioprocess p then audioprocess U inputData s else s)"
| "step U SendResume s =
     (case sessionRef s of
        None \<Rightarrow> s
      | Some ls \<Rightarrow> s\<lparr>sessionRef := Some (sendAudio_resume ls)\<rparr>)"
| "step U RemoteError s = (case sessionRef s of None \<Rightarrow> s | Some ls \<Rightarrow> onerror s)"
| "step U RemoteClose s =
     (case sessionRef s of
        None \<Rightarrow> s
      | Some ls \<Rightarrow> onclose (s\<lparr>sessionRef := Some (ls\<lparr>remote_open := False\<rparr>)\<rparr>))"
| "step U Stop s = (case stopSession s of Inl e \<Rightarrow> s | Inr s' \<Rightarrow> s')"

fun run :: "('t::{plus,ord}) audioUtils \<Rightarrow> 't event list \<Rightarrow> 't live_interface \<Rightarrow> 't live_interface" where
  "run U [] s = s"
| "run U (e # es) s = run U es (step U e s)"


subsection \<open>Events of a LiveSession alone\<close>

text \<open>
  The same for one LiveSession, seen from the capture side: a frame is passed to
  \<open>sendAudio\<close>, the handshake ends, the oldest suspended \<open>sendAudio\<close> continues,
  \<open>disconnect\<close> is called.
\<close>

datatype session_event =
    SendAudio "real list"
  | Settle bool
  | Resume
  | Disconnect

fun session_step :: "'t audioUtils \<Rightarrow> session_event \<Rightarrow> live_session \<Rightarrow> live_session" where
  "session_step U (SendAudio pcmData) ls = sendAudio U pcmData ls"
| "session_step U (Settle ok) ls = settle ok ls"
| "session_step U Resume ls = sendAudio_resume ls"
| "session_step U Disconnect ls = disconnect ls"

fun session_run :: "'t audioUtils \<Rightarrow> session_event list \<Rightarrow> live_session \<Rightarrow> live_session" where
  "session_run U [] ls = ls"
| "session_run U (e # es) ls = session_run U es (session_step U e ls)"


section \<open>Notions used in the properties\<close>

text \<open>Every buffer the decoder returns has a non-negative duration.\<close>

definition nonneg_durations :: "('t::{zero,ord}) audioUtils \<Rightarrow> bool" where
  "nonneg_durations U =
     (\<forall>bs rate ch b. decodeAudioData U bs rate ch = Inr b \<longrightarrow> 0 \<le> duration b)"

definition end_time :: "('t::plus) start_call \<Rightarrow> 't" where
  "end_time c = start_time c + duration (buffer c)"




text \<open>
  A chunk is in time when nothing has been scheduled yet or the output clock has not passed
  the end of the buffer scheduled last; a trace is timely when each of its chunks is in time
  at the moment it arrives.
\<close>

definition in_time :: "('t::{plus,ord}) event \<Rightarrow> 't live_interface \<Rightarrow> bool" where
  "in_time e s =
     (case e of
        Chunk base64Data \<Rightarrow> started s = [] \<or> outputTime s \<le> end_time (last (started s))
      | _ \<Rightarrow> True)"











definition not_early :: "('t::ord) live_interface \<Rightarrow> bool" where
  "not_early s =
     ((\<forall>p \<in> set (decoding s). read_clock p \<le> nextStartTimeRef s) \<and>
      (\<forall>c \<in> set (started s). resync_clock c \<le> start_time c))"

text \<open>The remote connection is released when it is not open.\<close>

definition remote_released :: "'t live_interface \<Rightarrow> bool" where
  "remote_released s = (case sessionRef s of None \<Rightarrow> True | Some ls \<Rightarrow> \<not> remote_open ls)"

text \<open>The rejections a call of \<open>stopSession\<close> gets from contexts that are closed already.\<close>

definition rejected_close :: "audio_context option \<Rightarrow> error list" where
  "rejected_close r =
     (case r of None \<Rightarrow> [] | Some c \<Rightarrow> if ctx_state c = Closed then [already_closed] else [])"

definition close_rejections :: "'t live_interface \<Rightarrow> error list" where
  "close_rejections s = rejected_close (inputCtxRef s) @ rejected_close (outputCtxRef s)"

definition stop_twice :: "'t live_interface \<Rightarrow> error + 't live_interface" where
  "stop_twice s = and_then (stopSession s) stopSession"

text \<open>The frames a trace passes to \<open>sendAudio\<close>, and what \<open>sendAudio\<close> makes of a frame.\<close>

fun frames :: "session_event list \<Rightarrow> real list list" where
  "frames [] = []"
| "frames (SendAudio pcmData # es) = pcmData # frames es"
| "frames (e # es) = frames es"

definition encode :: "'t audioUtils \<Rightarrow> real list \<Rightarrow> string" where
  "encode U pcmData = arrayBufferToBase64 U (convertFloat32ToInt16 U pcmData)"

definition in_order :: "live_session \<Rightarrow> string list \<Rightarrow> bool" where
  "in_order ls fs =
     (case sessionPromise ls of
        None \<Rightarrow> sent ls = [] \<and> awaiting ls = []
      | Some Pending \<Rightarrow> sent ls = [] \<and> awaiting ls = fs
      | Some Fulfilled \<Rightarrow> map data (sent ls) @ awaiting ls = fs
      | Some Rejected \<Rightarrow> sent ls = [])"


section \<open>Sample inputs\<close>

text \<open>
  A stand-in for audioUtils on which the model can be run: base64 text with a \<open>!\<close> is
  refused, each character is one byte, an odd number of bytes does not decode, and each
  16-bit sample lasts half a second.  The samples take their times in the real numbers and
  use multiples of 1/64 only, whose sums are the same for doubles.
\<close>

definition demo_utils :: "real audioUtils" where
  "demo_utils =
     \<lparr>b64ToUint8Array =
        (\<lambda>txt. if CHR ''!'' \<in> set txt then Inl (Failure ''InvalidCharacterError'')
               else Inr (map (\<lambda>c. of_nat (of_char c)) txt)),
      decodeAudioData =
        (\<lambda>bs rate ch. if odd (length bs) then Inl (Failure ''odd byte count'')
                       else Inr \<lparr>duration = real (length bs div 2) / 2\<rparr>),
      convertFloat32ToInt16 = map (\<lambda>x. if 0 \<le> x then 1 else 0),
      arrayBufferToBase64 = map (\<lambda>b. if b = 0 then CHR ''A'' else CHR ''B'')\<rparr>"

text \<open>A session started with one microphone track, the handshake done.\<close>

definition demo_active :: "real live_interface" where
  "demo_active =
     startSession_connected True
       (startSession_media (Inr \<lparr>tracks = [Live]\<rparr>) (startSession mounted))"

text \<open>\<open>demo_active\<close> after \<open>stopSession\<close>, once and twice.\<close>

definition demo_stopped :: "real live_interface" where
  "demo_stopped =
     \<lparr>status = Active,
      sessionRef = Some \<lparr>sessionPromise = Some Fulfilled, awaiting = [], sent = [],
                         remote_open = True\<rparr>,
      inputCtxRef = Some \<lparr>sampleRate = 16000, ctx_state = Closed\<rparr>,
      outputCtxRef = Some \<lparr>sampleRate = 24000, ctx_state = Closed\<rparr>,
      nextStartTimeRef = 0,
      processorRef = Some \<lparr>onaudioprocess = True, wired = False\<rparr>,
      streamRef = Some \<lparr>tracks = [Ended]\<rparr>,
      outputTime = 0, started = [], decoding = [], unhandled = [],
      console = [''Live Session Opened'']\<rparr>"

definition demo_stopped_twice :: "real live_interface" where
  "demo_stopped_twice = demo_stopped\<lparr>unhandled := [already_closed, already_closed]\<rparr>"

text \<open>
  A component that unmounts while \<open>startSession\<close> waits for the microphone; then the
  microphone is granted, and then the handshake completes.
\<close>

definition demo_late_media :: "real live_interface" where
  "demo_late_media =
     startSession_media (Inr \<lparr>tracks = [Live]\<rparr>) (step demo_utils Stop (startSession mounted))"

definition demo_late_active :: "real live_interface" where
  "demo_late_active = startSession_connected True demo_late_media"


section \<open>Properties\<close>

subsection \<open>stopSession never throws\<close>

lemma stopSession_total: "\<exists>s'. stopSession s = Inr s'"
  by (auto simp: stopSession_def and_then_def stop_tracks_def processor_disconnect_def
        close_input_def close_output_def split: option.splits)

lemma stopSession_frame:
  "stopSession s = Inr s' \<Longrightarrow>
   nextStartTimeRef s' = nextStartTimeRef s \<and> started s' = started s \<and>
   decoding s' = decoding s \<and> outputTime s' = outputTime s \<and>
   console s' = console s \<and> status s' = status s"
  by (auto simp: stopSession_def and_then_def stop_tracks_def processor_disconnect_def
        close_input_def close_output_def split: option.splits if_splits)

lemma step_Stop_frame:
  "nextStartTimeRef (step U Stop s) = nextStartTimeRef s \<and> started (step U Stop s) = started s \<and> decoding (step U Stop s) = decoding s \<and> outputTime (step U Stop s) = outputTime s"
proof -
  obtain s' where s': "stopSession s = Inr s'"
    using stopSession_total by blast
  from stopSession_frame[OF s'] s' show ?thesis by simp
qed

subsection \<open>The playback scheduler\<close>




lemma step_cursor_mono:
  "nonneg_durations U \<Longrightarrow> nextStartTimeRef s \<le> nextStartTimeRef (step U e s)"
  for s :: "real live_interface"
proof (cases e)
  case Stop
  then show ?thesis using step_Stop_frame[of U s] by simp
next
  case (DecodeDone i)
  assume "nonneg_durations U"
  with DecodeDone show ?thesis
    by (auto simp: playAudio_resume_def Let_def nonneg_durations_def split: sum.splits)
qed (auto simp: playAudio_def Let_def audioprocess_def onclose_def onerror_def split: option.splits sum.splits)

lemma run_cursor_mono:
  "nonneg_durations U \<Longrightarrow> nextStartTimeRef s \<le> nextStartTimeRef (run U evs s)"
  for s :: "real live_interface"
proof (induction evs arbitrary: s)
  case Nil
  then show ?case by simp
next
  case (Cons e es)
  have "nextStartTimeRef s \<le> nextStartTimeRef (step U e s)"
    using Cons.prems by (rule step_cursor_mono)
  also have "\<dots> \<le> nextStartTimeRef (run U es (step U e s))"
    using Cons.prems by (rule Cons.IH)
  finally show ?case by simp
qed

lemma not_early_step: "nonneg_durations U \<Longrightarrow> not_early s \<Longrightarrow> not_early (step U e s)"
  for s :: "real live_interface"
proof (cases e)
  case Stop
  assume "not_early s"
  with Stop show ?thesis using step_Stop_frame[of U s] by (simp add: not_early_def)
next
  case (DecodeDone i)
  assume a: "nonneg_durations U" "not_early s"
  show ?thesis
  proof (cases "i < length (decoding s)")
    case False
    with a DecodeDone show ?thesis by (simp add: playAudio_resume_def)
  next
    case True
    then have m: "decoding s ! i \<in> set (decoding s)" by simp
    have sub: "set (take i (decoding s) @ drop (Suc i) (decoding s)) \<subseteq> set (decoding s)"
      using set_take_subset set_drop_subset by fastforce
    show ?thesis
    proof (cases "decodeAudioData U (audioBytes (decoding s ! i)) 24000 1")
      case (Inl err)
      with a True DecodeDone sub show ?thesis
        by (auto simp: not_early_def playAudio_resume_def Let_def)
    next
      case (Inr b)
      with a(1) have "0 \<le> duration b" by (auto simp: nonneg_durations_def)
      with a Inr True DecodeDone sub m show ?thesis
        by (fastforce simp: not_early_def playAudio_resume_def Let_def)
    qed
  qed
next
  case (Chunk d)
  assume "not_early s"
  with Chunk show ?thesis
    by (fastforce simp: not_early_def playAudio_def Let_def split: option.splits sum.splits)
qed (auto simp: not_early_def audioprocess_def onclose_def onerror_def split: option.splits)

lemma not_early_run: "nonneg_durations U \<Longrightarrow> not_early s \<Longrightarrow> not_early (run U evs s)"
  for s :: "real live_interface"
  by (induction evs arbitrary: s) (auto simp: not_early_step)

subsection \<open>The sample inputs\<close>

lemma demo_nonneg: "nonneg_durations demo_utils"
  by (auto simp: nonneg_durations_def demo_utils_def)

lemma demo_active_eq:
  "demo_active = \<lparr>status = Active,
      sessionRef = Some \<lparr>sessionPromise = Some Fulfilled, awaiting = [], sent = [], remote_open = True\<rparr>,
      inputCtxRef = Some \<lparr>sampleRate = 16000, ctx_state = Running\<rparr>,
      outputCtxRef = Some \<lparr>sampleRate = 24000, ctx_state = Running\<rparr>,
      nextStartTimeRef = 0,
      processorRef = Some \<lparr>onaudioprocess = True, wired = True\<rparr>,
      streamRef = Some \<lparr>tracks = [Live]\<rparr>,
      outputTime = 0, started = [], decoding = [], unhandled = [],
      console = [''Live Session Opened'']\<rparr>"
  by (simp add: demo_active_def startSession_connected_def startSession_media_def startSession_def
      mounted_def new_AudioContext_def connect_def new_LiveSession_def settle_def onopen_def Let_def)

lemmas demo_simps = demo_active_eq demo_utils_def playAudio_def playAudio_resume_def Let_def in_time_def end_time_def

subsection \<open>stopSession, again\<close>

lemma disconnect_id: "disconnect ls = ls"
  by (simp add: disconnect_def)

lemma stopSession_eq:
  "stopSession s =
     Inr (s\<lparr>streamRef := map_option (\<lambda>st. st\<lparr>tracks := map (\<lambda>t. Ended) (tracks st)\<rparr>) (streamRef s),
            processorRef := map_option (\<lambda>p. p\<lparr>wired := False\<rparr>) (processorRef s),
            inputCtxRef := map_option (\<lambda>c. c\<lparr>ctx_state := Closed\<rparr>) (inputCtxRef s),
            outputCtxRef := map_option (\<lambda>c. c\<lparr>ctx_state := Closed\<rparr>) (outputCtxRef s),
            unhandled := unhandled s @ close_rejections s\<rparr>)"
proof -
  have closed: "c\<lparr>ctx_state := Closed\<rparr> = c" if "ctx_state c = Closed" for c :: audio_context
    using that by simp
  show ?thesis
    by (cases "streamRef s"; cases "processorRef s"; cases "inputCtxRef s";
        cases "outputCtxRef s"; cases "sessionRef s")
       (auto simp add: stopSession_def and_then_def stop_tracks_def processor_disconnect_def
          close_input_def close_output_def disconnect_id close_rejections_def
          rejected_close_def closed)
qed

subsection \<open>Order and separation of the started buffers\<close>










subsection \<open>The capture path\<close>

lemma in_order_step:
  "in_order ls fs \<Longrightarrow> in_order (session_step U e ls) (fs @ map (encode U) (frames [e]))"
proof (cases e)
  case (SendAudio pcmData)
  assume "in_order ls fs"
  with SendAudio show ?thesis
    by (auto simp: in_order_def sendAudio_def encode_def Let_def split: option.splits promise_state.splits)
next
  case (Settle ok)
  assume "in_order ls fs"
  with Settle show ?thesis
    by (auto simp: in_order_def settle_def split: option.splits promise_state.splits)
next
  case Resume
  assume "in_order ls fs"
  with Resume show ?thesis
    by (auto simp: in_order_def sendAudio_resume_def split: option.splits promise_state.splits list.splits)
next
  case Disconnect
  assume "in_order ls fs"
  with Disconnect show ?thesis by (simp add: disconnect_id)
qed

lemma frames_Cons: "frames (e # es) = frames [e] @ frames es"
  by (cases e) simp_all

lemma in_order_run:
  "in_order ls fs \<Longrightarrow> in_order (session_run U evs ls) (fs @ map (encode U) (frames evs))"
proof (induction evs arbitrary: ls fs)
  case Nil
  then show ?case by simp
next
  case (Cons e es)
  from Cons.prems have "in_order (session_step U e ls) (fs @ map (encode U) (frames [e]))"
    by (rule in_order_step)
  from Cons.IH[OF this] show ?case
    by (simp add: frames_Cons[of e es])
qed

lemma in_order_prefix: "in_order ls fs \<Longrightarrow> prefix (map data (sent ls)) fs"
  by (auto simp: in_order_def prefix_def split: option.splits promise_state.splits)

subsection \<open>Base64\<close>

lemma index_of_nth: "distinct xs \<Longrightarrow> n < length xs \<Longrightarrow> index_of (xs ! n) xs = Some n"
proof (induction xs arbitrary: n)
  case Nil
  then show ?case by simp
next
  case (Cons x xs)
  show ?case
  proof (cases n)
    case 0
    then show ?thesis by simp
  next
    case (Suc m)
    with Cons.prems have "xs ! m \<in> set xs" "x \<notin> set xs" by auto
    then have "xs ! m \<noteq> x" by auto
    with Suc Cons show ?thesis by auto
  qed
qed

lemma alphabet_length: "length base64_alphabet = 64"
  by (simp add: base64_alphabet_def)

lemma alphabet_distinct: "distinct base64_alphabet"
  by (simp add: base64_alphabet_def)

lemma pad_not_in_alphabet: "base64_pad \<notin> set base64_alphabet"
  by (simp add: base64_alphabet_def base64_pad_def)

lemma char_sextet_char: "n < 64 \<Longrightarrow> char_sextet (sextet_char n) = Some n"
  by (simp add: char_sextet_def sextet_char_def index_of_nth alphabet_distinct alphabet_length)

lemma sextet_char_not_pad: "n < 64 \<Longrightarrow> sextet_char n \<noteq> base64_pad"
proof -
  assume "n < 64"
  then have "base64_alphabet ! n \<in> set base64_alphabet"
    by (simp add: alphabet_length)
  with pad_not_in_alphabet show ?thesis
    by (auto simp: sextet_char_def)
qed

lemma unat_byte: "unat (a :: 8 word) < 256"
  using unsigned_less[of a, where ?'a = nat] by simp

lemma div16_bound: "y < 256 \<Longrightarrow> y div 16 < (16::nat)"
  by (simp add: less_mult_imp_div_less)

lemma div64_bound: "z < 256 \<Longrightarrow> z div 64 < (4::nat)"
  by (simp add: less_mult_imp_div_less)

lemma sextet1_bound: "x < 256 \<Longrightarrow> x div 4 < (64::nat)"
  by (simp add: less_mult_imp_div_less)

lemma div16_mult_add: "r < (16::nat) \<Longrightarrow> (q * 16 + r) div 16 = q"
  by simp

lemma mod16_mult_add: "r < (16::nat) \<Longrightarrow> (q * 16 + r) mod 16 = r"
  by simp

lemma div4_mult_add: "r < (4::nat) \<Longrightarrow> (q * 4 + r) div 4 = q"
  by simp

lemma mod4_mult_add: "r < (4::nat) \<Longrightarrow> (q * 4 + r) mod 4 = r"
  by simp

lemma join1: "y < 256 \<Longrightarrow> (x div 4) * 4 + (x mod 4 * 16 + y div 16) div 16 = (x::nat)"
  by (simp add: div16_mult_add div16_bound)

lemma join1': "(x div 4) * 4 + (x mod 4 * 16) div 16 = (x::nat)"
  by simp

lemma join2: "y < 256 \<Longrightarrow> z < 256 \<Longrightarrow> (x mod 4 * 16 + y div 16) mod 16 * 16 + (y mod 16 * 4 + z div 64) div 4 = (y::nat)"
  by (simp add: mod16_mult_add div4_mult_add div16_bound div64_bound)

lemma join2': "y < 256 \<Longrightarrow> (x mod 4 * 16 + y div 16) mod 16 * 16 + (y mod 16 * 4) div 4 = (y::nat)"
  by (simp add: mod16_mult_add div16_bound)

lemma join3: "z < 256 \<Longrightarrow> (y mod 16 * 4 + z div 64) mod 4 * 64 + z mod 64 = (z::nat)"
  by (simp add: mod4_mult_add div64_bound)

lemma sextet2_bound: "y < (256::nat) \<Longrightarrow> x mod 4 * 16 + y div 16 < 64"
proof -
  assume "y < 256"
  then have "y div 16 < 16" by (rule div16_bound)
  moreover have "x mod 4 < 4" by simp
  ultimately show ?thesis by linarith
qed

lemma sextet2_bound_pad: "x mod 4 * 16 < (64::nat)"
proof -
  have "x mod 4 < 4" by simp
  then show ?thesis by linarith
qed

lemma sextet3_bound: "z < (256::nat) \<Longrightarrow> y mod 16 * 4 + z div 64 < 64"
proof -
  assume "z < 256"
  then have "z div 64 < 4" by (rule div64_bound)
  moreover have "y mod 16 < 16" by simp
  ultimately show ?thesis by linarith
qed

lemma sextet3_bound_pad: "y mod 16 * 4 < (64::nat)"
proof -
  have "y mod 16 < 16" by simp
  then show ?thesis by linarith
qed


lemma byte1_split: "byte1 (unat a div 4) (unat a mod 4 * 16 + unat b div 16) = a"
  for b :: "8 word"
proof -
  have "unat a div 4 * 4 + (unat a mod 4 * 16 + unat b div 16) div 16 = unat a"
    using unat_byte by (rule join1)
  then have "byte1 (unat a div 4) (unat a mod 4 * 16 + unat b div 16) = of_nat (unat a)"
    unfolding byte1_def by (rule arg_cong)
  then show ?thesis by simp
qed

lemma byte1_split_pad: "byte1 (unat a div 4) (unat a mod 4 * 16) = a"
proof -
  have "unat a div 4 * 4 + (unat a mod 4 * 16) div 16 = unat a"
    by (rule join1')
  then have "byte1 (unat a div 4) (unat a mod 4 * 16) = of_nat (unat a)"
    unfolding byte1_def by (rule arg_cong)
  then show ?thesis by simp
qed

lemma byte2_split:
  "byte2 (unat a mod 4 * 16 + unat b div 16) (unat b mod 16 * 4 + unat c div 64) = b"
  for a c :: "8 word"
proof -
  have "(unat a mod 4 * 16 + unat b div 16) mod 16 * 16 +
        (unat b mod 16 * 4 + unat c div 64) div 4 = unat b"
    using unat_byte unat_byte by (rule join2)
  then have "byte2 (unat a mod 4 * 16 + unat b div 16) (unat b mod 16 * 4 + unat c div 64) =
             of_nat (unat b)"
    unfolding byte2_def by (rule arg_cong)
  then show ?thesis by simp
qed

lemma byte2_split_pad: "byte2 (unat a mod 4 * 16 + unat b div 16) (unat b mod 16 * 4) = b"
  for a :: "8 word"
proof -
  have "(unat a mod 4 * 16 + unat b div 16) mod 16 * 16 + (unat b mod 16 * 4) div 4 = unat b"
    using unat_byte by (rule join2')
  then have "byte2 (unat a mod 4 * 16 + unat b div 16) (unat b mod 16 * 4) = of_nat (unat b)"
    unfolding byte2_def by (rule arg_cong)
  then show ?thesis by simp
qed

lemma byte3_split: "byte3 (unat b mod 16 * 4 + unat c div 64) (unat c mod 64) = c"
  for b :: "8 word"
proof -
  have "(unat b mod 16 * 4 + unat c div 64) mod 4 * 64 + unat c mod 64 = unat c"
    using unat_byte by (rule join3)
  then have "byte3 (unat b mod 16 * 4 + unat c div 64) (unat c mod 64) = of_nat (unat c)"
    unfolding byte3_def by (rule arg_cong)
  then show ?thesis by simp
qed


section \<open>The claims\<close>




text \<open>
  C2 (never in the past), as stated: the start time passed to \<open>source.start\<close> is at or
  after the output clock at the moment of that call.  It fails: the clock is read before
  \<open>await decodeAudioData\<close> and not again.  A chunk arrives at clock 6, its decode takes
  1/64 s, and the buffer is started at 6 when the clock shows 6 + 1/64.
\<close>

theorem start_before_clock_counterexample:
  "start_time (last (started (run demo_utils [Tick 6, Chunk ''abcd'', Tick (1/64), DecodeDone 0] demo_active))) = 6 \<and>
   called_at (last (started (run demo_utils [Tick 6, Chunk ''abcd'', Tick (1/64), DecodeDone 0] demo_active))) = 385/64 \<and>
   start_time (last (started (run demo_utils [Tick 6, Chunk ''abcd'', Tick (1/64), DecodeDone 0] demo_active)))
     < called_at (last (started (run demo_utils [Tick 6, Chunk ''abcd'', Tick (1/64), DecodeDone 0] demo_active)))"
  by (simp add: demo_simps)

text \<open>
  C2, amended: with non-negative durations, every start time passed to \<open>source.start\<close>
  is at or after the value of the output clock that the same \<open>playAudio\<close> call read at its
  resync step; so it is at or after the clock at the moment of the call whenever the clock
  has not moved since (and it may be so when the clock has moved).  Times are real numbers
  here: the proof uses that adding a non-negative duration does not lower a time.
\<close>

theorem start_not_before_resync:
  "nonneg_durations U \<Longrightarrow> started s = [] \<Longrightarrow> decoding s = [] \<Longrightarrow>
   \<forall>c \<in> set (started (run U evs s)).
     resync_clock c \<le> start_time c \<and> (called_at c = resync_clock c \<longrightarrow> called_at c \<le> start_time c)"
  for s :: "real live_interface"
proof -
  assume a: "nonneg_durations U" "started s = []" "decoding s = []"
  then have "not_early s" by (simp add: not_early_def)
  with a(1) have "not_early (run U evs s)" by (rule not_early_run)
  then show ?thesis by (auto simp: not_early_def)
qed

text \<open>
  The stall scenario of the specification: a chunk of 1.0 s is scheduled at 0; the next
  chunk arrives at clock 6 and is started at 6, not at 1.  And a chunk queued behind
  another: the clock moves from 0 to 0.5 during its decode and it is started at 1.
\<close>

theorem start_not_before_resync_witness:
  "nonneg_durations demo_utils \<and> started demo_active = [] \<and> decoding demo_active = [] \<and>
   map start_time (started (run demo_utils [Chunk ''abcd'', DecodeDone 0, Tick 6, Chunk ''ab'', DecodeDone 0] demo_active)) = [0, 6] \<and>
   map resync_clock (started (run demo_utils [Chunk ''abcd'', DecodeDone 0, Tick 6, Chunk ''ab'', DecodeDone 0] demo_active)) = [0, 6] \<and>
   map start_time (started (run demo_utils [Chunk ''abcd'', DecodeDone 0, Chunk ''ab'', Tick (1/2), DecodeDone 0] demo_active)) = [0, 1] \<and>
   map called_at (started (run demo_utils [Chunk ''abcd'', DecodeDone 0, Chunk ''ab'', Tick (1/2), DecodeDone 0] demo_active)) = [0, 1/2]"
  using start_not_before_resync[of demo_utils demo_active "[Chunk ''abcd'', DecodeDone 0, Tick 6, Chunk ''ab'', DecodeDone 0]"] demo_nonneg
  by (simp add: demo_simps)

text \<open>
  C3 (cursor invariant), for times that are real numbers.  With non-negative durations, no
  event lowers \<open>nextStartTimeRef\<close>: each write (the resync before the await, the advance
  after it) stores a value at or above the one before, hence so does every run; and the
  resync step never leaves it below the output clock it reads.
\<close>

theorem cursor_monotone:
  "nonneg_durations U \<Longrightarrow>
   nextStartTimeRef s \<le> nextStartTimeRef (step U e s) \<and>
   nextStartTimeRef s \<le> nextStartTimeRef (run U evs s) \<and>
   (outputCtxRef s \<noteq> None \<longrightarrow> outputTime s \<le> nextStartTimeRef (playAudio U base64Data s))"
  for s :: "real live_interface"
proof (intro conjI impI)
  assume "nonneg_durations U"
  then show "nextStartTimeRef s \<le> nextStartTimeRef (step U e s)" by (rule step_cursor_mono)
next
  assume "nonneg_durations U"
  then show "nextStartTimeRef s \<le> nextStartTimeRef (run U evs s)" by (rule run_cursor_mono)
next
  assume "outputCtxRef s \<noteq> None"
  then show "outputTime s \<le> nextStartTimeRef (playAudio U base64Data s)"
    by (auto simp: playAudio_def Let_def split: sum.splits)
qed

theorem cursor_monotone_witness:
  "nonneg_durations demo_utils \<and> outputCtxRef demo_active \<noteq> None \<and>
   nextStartTimeRef demo_active = 0 \<and>
   nextStartTimeRef (step demo_utils (Tick 6) demo_active) = 0 \<and>
   nextStartTimeRef (run demo_utils [Tick 6, Chunk ''ab'', DecodeDone 0] demo_active) = 13/2 \<and>
   outputTime (step demo_utils (Tick 6) demo_active) = 6 \<and>
   nextStartTimeRef (playAudio demo_utils ''ab'' (step demo_utils (Tick 6) demo_active)) = 6"
  using cursor_monotone[of demo_utils demo_active "Tick 6" "[Tick 6, Chunk ''ab'', DecodeDone 0]" "''ab''"] demo_nonneg
  by (simp add: demo_simps)

text \<open>
  C4 (decode failure), as stated: the failed chunk leaves the cursor at the value it had after
  the last successful advance.  It fails: the resync runs before either decoder.  After a
  1.0 s chunk the cursor is 1; a chunk that cannot be decoded arrives at clock 6 and leaves
  the cursor at 6, with nothing more scheduled.
\<close>

theorem decode_failure_cursor_counterexample:
  "nextStartTimeRef (run demo_utils [Chunk ''abcd'', DecodeDone 0] demo_active) = 1 \<and>
   nextStartTimeRef (run demo_utils [Chunk ''abcd'', DecodeDone 0, Tick 6, Chunk ''abc'', DecodeDone 0] demo_active) = 6 \<and>
   length (started (run demo_utils [Chunk ''abcd'', DecodeDone 0, Tick 6, Chunk ''abc'', DecodeDone 0] demo_active)) = 1 \<and>
   nextStartTimeRef (run demo_utils [Chunk ''abcd'', DecodeDone 0, Tick 6, Chunk ''abc'', DecodeDone 0] demo_active) \<noteq>
     nextStartTimeRef (run demo_utils [Chunk ''abcd'', DecodeDone 0] demo_active)"
  by (simp add: demo_simps)

text \<open>
  C4, amended: a chunk whose decode fails is not scheduled and does not advance the cursor,
  which keeps the value of the resync step, \<open>max cursor clock\<close>; the status, the refs, the
  schedule and the other suspended calls are untouched, so the session is not torn down;
  and the next chunk is processed as usual.  This holds when \<open>b64ToUint8Array\<close> throws
  (before the await) and when \<open>decodeAudioData\<close> fails (after it); the third part puts
  the two stretches of one failing call together, the fourth lets a chunk that decodes
  follow.  What the failing call writes to the console and what becomes of its rejected
  promise is left open: the two fields are reset on the left of each equation.
\<close>

theorem decode_failure_contained:
  "(outputCtxRef s \<noteq> None \<and> b64ToUint8Array U base64Data = Inl e1 \<longrightarrow>
      (playAudio U base64Data s)\<lparr>unhandled := unhandled s, console := console s\<rparr> =
        s\<lparr>nextStartTimeRef := max (nextStartTimeRef s) (outputTime s)\<rparr>) \<and>
   (i < length (decoding s) \<and> decodeAudioData U (audioBytes (decoding s ! i)) 24000 1 = Inl e2 \<longrightarrow>
      (playAudio_resume U i s)\<lparr>unhandled := unhandled s, console := console s\<rparr> =
        s\<lparr>decoding := take i (decoding s) @ drop (Suc i) (decoding s)\<rparr>) \<and>
   (outputCtxRef s \<noteq> None \<and> b64ToUint8Array U base64Data = Inr bs \<and>
    decodeAudioData U bs 24000 1 = Inl e2 \<longrightarrow>
      (run U [Chunk base64Data, DecodeDone (length (decoding s))] s)
          \<lparr>unhandled := unhandled s, console := console s\<rparr> =
        s\<lparr>nextStartTimeRef := max (nextStartTimeRef s) (outputTime s)\<rparr>) \<and>
   (outputCtxRef s \<noteq> None \<and> b64ToUint8Array U base64Data = Inr bs \<and>
    decodeAudioData U bs 24000 1 = Inl e2 \<and>
    b64ToUint8Array U next_chunk = Inr bs' \<and> decodeAudioData U bs' 24000 1 = Inr b \<longrightarrow>
      started (run U [Chunk base64Data, DecodeDone (length (decoding s)),
                      Chunk next_chunk, DecodeDone (length (decoding s))] s) =
        started s @
          [\<lparr>buffer = b, start_time = max (nextStartTimeRef s) (outputTime s),
            called_at = outputTime s, resync_clock = outputTime s\<rparr>])"
  for s :: "('t::{plus,linorder}) live_interface"
proof (intro conjI impI)
  assume "outputCtxRef s \<noteq> None \<and> b64ToUint8Array U base64Data = Inl e1"
  then show "(playAudio U base64Data s)\<lparr>unhandled := unhandled s, console := console s\<rparr> =
        s\<lparr>nextStartTimeRef := max (nextStartTimeRef s) (outputTime s)\<rparr>"
    by (auto simp: playAudio_def Let_def)
next
  assume "i < length (decoding s) \<and>
          decodeAudioData U (audioBytes (decoding s ! i)) 24000 1 = Inl e2"
  then show "(playAudio_resume U i s)\<lparr>unhandled := unhandled s, console := console s\<rparr> =
        s\<lparr>decoding := take i (decoding s) @ drop (Suc i) (decoding s)\<rparr>"
    by (simp add: playAudio_resume_def Let_def)
next
  assume "outputCtxRef s \<noteq> None \<and> b64ToUint8Array U base64Data = Inr bs \<and>
          decodeAudioData U bs 24000 1 = Inl e2"
  then show "(run U [Chunk base64Data, DecodeDone (length (decoding s))] s)
          \<lparr>unhandled := unhandled s, console := console s\<rparr> =
        s\<lparr>nextStartTimeRef := max (nextStartTimeRef s) (outputTime s)\<rparr>"
    by (auto simp: playAudio_def playAudio_resume_def Let_def)
next
  assume "outputCtxRef s \<noteq> None \<and> b64ToUint8Array U base64Data = Inr bs \<and>
    decodeAudioData U bs 24000 1 = Inl e2 \<and>
    b64ToUint8Array U next_chunk = Inr bs' \<and> decodeAudioData U bs' 24000 1 = Inr b"
  then show "started (run U [Chunk base64Data, DecodeDone (length (decoding s)),
                      Chunk next_chunk, DecodeDone (length (decoding s))] s) =
        started s @
          [\<lparr>buffer = b, start_time = max (nextStartTimeRef s) (outputTime s),
            called_at = outputTime s, resync_clock = outputTime s\<rparr>]"
    by (auto simp: playAudio_def playAudio_resume_def Let_def)
qed

text \<open>
  After a scheduled chunk, a stall, a chunk that does not decode and one that is not
  base64, the next good chunk is scheduled at the resynchronised cursor and the session is
  still active.
\<close>

theorem decode_failure_contained_witness:
  "outputCtxRef (run demo_utils [Chunk ''abcd'', DecodeDone 0, Tick 6] demo_active) \<noteq> None \<and>
   b64ToUint8Array demo_utils ''!'' = Inl (Failure ''InvalidCharacterError'') \<and>
   b64ToUint8Array demo_utils ''abc'' = Inr [97, 98, 99] \<and>
   decodeAudioData demo_utils [97, 98, 99] 24000 1 = Inl (Failure ''odd byte count'') \<and>
   b64ToUint8Array demo_utils ''ab'' = Inr [97, 98] \<and>
   decodeAudioData demo_utils [97, 98] 24000 1 = Inr \<lparr>duration = 1/2\<rparr> \<and>
   map start_time (started (run demo_utils [Chunk ''abcd'', DecodeDone 0, Tick 6, Chunk ''abc'', Chunk ''!'', DecodeDone 0, Chunk ''ab'', DecodeDone 0] demo_active)) = [0, 6] \<and>
   status (run demo_utils [Chunk ''abcd'', DecodeDone 0, Tick 6, Chunk ''abc'', Chunk ''!'', DecodeDone 0, Chunk ''ab'', DecodeDone 0] demo_active) = Active"
  using decode_failure_contained[where s = "run demo_utils [Chunk ''abcd'', DecodeDone 0, Tick 6] demo_active"
      and U = demo_utils and ?base64Data = "''abc''" and ?e1.0 = "Failure ''InvalidCharacterError''"
      and i = 0 and ?e2.0 = "Failure ''odd byte count''" and bs = "[97, 98, 99]"
      and next_chunk = "''ab''" and bs' = "[97, 98]" and b = "\<lparr>duration = 1/2\<rparr>"]
    decode_failure_contained[where s = "run demo_utils [Chunk ''abcd'', DecodeDone 0, Tick 6, Chunk ''abc''] demo_active"
      and U = demo_utils and ?base64Data = "''!''" and ?e1.0 = "Failure ''InvalidCharacterError''"
      and i = 0 and ?e2.0 = "Failure ''odd byte count''" and bs = "[]"
      and next_chunk = "''ab''" and bs' = "[97, 98]" and b = "\<lparr>duration = 1/2\<rparr>"]
  by (simp add: demo_simps)

text \<open>
  C5 (idempotent teardown): stopping twice, or stopping a session that never became active,
  does not throw and leaves every resource released once.  \<open>stopSession\<close> never throws
  (\<open>stopSession_total\<close>), but the code misses the rest in three places.  On an active
  session stopped twice, the remote connection is still open, because \<open>disconnect\<close> is
  an empty stub, and the second call has closed both closed contexts again, because no ref
  is cleared.  On a session stopped while \<open>startSession\<close> waits for the microphone, the
  start goes on when the microphone is granted: the stream is stored with its track live,
  and after the handshake the processor is wired, the status is \<open>active\<close> and the
  connection is open, with no \<open>stopSession\<close> to come.
\<close>

theorem teardown_leaks:
  "stop_twice demo_active = Inr demo_stopped_twice \<and>
   map_option remote_open (sessionRef demo_stopped_twice) = Some True \<and>
   \<not> remote_released demo_stopped_twice \<and>
   unhandled demo_stopped_twice = [already_closed, already_closed] \<and>
   map_option tracks (streamRef (step demo_utils Stop (startSession mounted))) = None \<and>
   map_option tracks (streamRef demo_late_media) = Some [Live] \<and>
   map_option tracks (streamRef demo_late_active) = Some [Live] \<and>
   map_option wired (processorRef demo_late_active) = Some True \<and>
   status demo_late_active = Active \<and>
   \<not> remote_released demo_late_active"
  by (simp add: stop_twice_def stopSession_eq and_then_def demo_active_eq demo_stopped_def
      demo_stopped_twice_def remote_released_def close_rejections_def rejected_close_def
      demo_late_active_def demo_late_media_def startSession_connected_def
      startSession_media_def startSession_def mounted_def new_AudioContext_def connect_def
      new_LiveSession_def settle_def onopen_def Let_def)

text \<open>
  C6 (stale decode), as stated: a decode that completes after \<open>stopSession\<close> is discarded.
  It fails: nothing in \<open>playAudio\<close> or \<open>stopSession\<close> tells a stopped session from a
  running one.  A chunk arrives, the component unmounts, the decode completes, and the
  buffer is started on the closed output context.
\<close>

theorem stale_decode_counterexample:
  "map_option ctx_state (outputCtxRef (run demo_utils [Chunk ''abcd'', Stop] demo_active)) = Some Closed \<and>
   started (run demo_utils [Chunk ''abcd'', Stop] demo_active) = [] \<and>
   started (run demo_utils [Chunk ''abcd'', Stop, DecodeDone 0] demo_active) =
     [\<lparr>buffer = \<lparr>duration = 1\<rparr>, start_time = 0, called_at = 0, resync_clock = 0\<rparr>]"
  by (simp add: demo_simps stopSession_eq)

text \<open>
  C6, amended: \<open>playAudio\<close> checks no session-active flag.  A decode that completes after
  \<open>stopSession\<close> is passed to \<open>source.start\<close> at the cursor and the cursor advances by
  its duration, exactly as if the decode had completed before \<open>stopSession\<close>.
\<close>

theorem stale_decode_scheduled:
  "i < length (decoding s) \<Longrightarrow> decodeAudioData U (audioBytes (decoding s ! i)) 24000 1 = Inr b \<Longrightarrow>
   started (run U [Stop, DecodeDone i] s) =
     started s @ [\<lparr>buffer = b, start_time = nextStartTimeRef s, called_at = outputTime s,
                   resync_clock = read_clock (decoding s ! i)\<rparr>] \<and>
   nextStartTimeRef (run U [Stop, DecodeDone i] s) = nextStartTimeRef s + duration b \<and>
   run U [Stop, DecodeDone i] s = run U [DecodeDone i, Stop] s"
  by (simp add: stopSession_eq playAudio_resume_def close_rejections_def Let_def)

theorem stale_decode_scheduled_witness:
  "0 < length (decoding (run demo_utils [Chunk ''abcd''] demo_active)) \<and>
   decodeAudioData demo_utils (audioBytes (decoding (run demo_utils [Chunk ''abcd''] demo_active) ! 0)) 24000 1 = Inr \<lparr>duration = 1\<rparr> \<and>
   nextStartTimeRef (run demo_utils [Stop, DecodeDone 0] (run demo_utils [Chunk ''abcd''] demo_active)) = 1"
  using stale_decode_scheduled[of 0 "run demo_utils [Chunk ''abcd''] demo_active" demo_utils "\<lparr>duration = 1\<rparr>"]
  by (simp add: demo_simps stopSession_eq)

text \<open>
  C7 (outbound order).  Take a LiveSession with nothing suspended and nothing sent, and let
  frames be passed to \<open>sendAudio\<close> while the handshake ends and suspended calls continue
  in any interleaving.  The data handed to \<open>sendRealtimeInput\<close> is then always a prefix
  of the encoded frames in capture order: no reordering, no frame twice.  Once the promise is
  fulfilled, what was sent followed by what still waits is the whole sequence.
\<close>

theorem outbound_order:
  "awaiting ls = [] \<Longrightarrow> sent ls = [] \<Longrightarrow>
   prefix (map data (sent (session_run U evs ls))) (map (encode U) (frames evs)) \<and>
   (sessionPromise (session_run U evs ls) = Some Fulfilled \<longrightarrow>
      map data (sent (session_run U evs ls)) @ awaiting (session_run U evs ls) =
        map (encode U) (frames evs))"
proof -
  assume "awaiting ls = []" "sent ls = []"
  then have "in_order ls []"
    by (simp add: in_order_def split: option.splits promise_state.splits)
  then have io: "in_order (session_run U evs ls) ([] @ map (encode U) (frames evs))"
    by (rule in_order_run)
  then have "prefix (map data (sent (session_run U evs ls))) (map (encode U) (frames evs))"
    using in_order_prefix by fastforce
  moreover have "sessionPromise (session_run U evs ls) = Some Fulfilled \<longrightarrow>
      map data (sent (session_run U evs ls)) @ awaiting (session_run U evs ls) =
        map (encode U) (frames evs)"
    using io by (auto simp: in_order_def)
  ultimately show ?thesis by simp
qed

theorem outbound_order_witness:
  "awaiting (connect new_LiveSession) = [] \<and> sent (connect new_LiveSession) = [] \<and>
   map data (sent (session_run demo_utils
      [SendAudio [1, -1], Settle True, SendAudio [-1], Resume, SendAudio [1], Resume, Resume, Resume]
      (connect new_LiveSession))) = [''BA'', ''A'', ''B''] \<and>
   map (encode demo_utils) (frames
      [SendAudio [1, -1], Settle True, SendAudio [-1], Resume, SendAudio [1], Resume, Resume, Resume])
     = [''BA'', ''A'', ''B'']"
  using outbound_order[of "connect new_LiveSession" demo_utils
      "[SendAudio [1, -1], Settle True, SendAudio [-1], Resume, SendAudio [1], Resume, Resume, Resume]"]
  by (simp add: connect_def new_LiveSession_def sendAudio_def settle_def sendAudio_resume_def
      demo_utils_def encode_def Let_def)

text \<open>
  C8 (base64 round trip).  For every byte buffer \<open>b\<close>, decoding the encoding of \<open>b\<close>
  succeeds and gives \<open>b\<close> back.
\<close>

theorem base64_roundtrip: "base64ToBytes (bytesToBase64 b) = Inr b"
proof (induction b rule: bytesToBase64.induct)
  case 1
  show ?case by simp
next
  case (2 a)
  show ?case
    by (simp add: char_sextet_char sextet_char_not_pad sextet1_bound sextet2_bound_pad unat_byte byte1_split_pad)
next
  case (3 a b)
  show ?case
    by (simp add: char_sextet_char sextet_char_not_pad sextet1_bound sextet2_bound sextet3_bound_pad unat_byte
        byte1_split byte2_split_pad)
next
  case (4 a b c rest)
  then show ?case
    by (simp add: char_sextet_char sextet_char_not_pad sextet1_bound sextet2_bound sextet3_bound unat_byte
        byte1_split byte2_split byte3_split)
qed

text \<open>The bytes of "Man", "Ma" and "M" and their well-known encodings.\<close>

theorem base64_roundtrip_witness:
  "bytesToBase64 [77, 97, 110] = ''TWFu'' \<and> base64ToBytes ''TWFu'' = Inr [77, 97, 110] \<and>
   bytesToBase64 [77, 97] = ''TWE='' \<and> base64ToBytes ''TWE='' = Inr [77, 97] \<and>
   bytesToBase64 [77] = ''TQ=='' \<and> base64ToBytes ''TQ=='' = Inr [77]"
  using base64_roundtrip[of "[77, 97, 110]"] base64_roundtrip[of "[77, 97]"]
    base64_roundtrip[of "[77]"]
  by (simp add: sextet_char_def base64_alphabet_def base64_pad_def)

text \<open>
  C9 (disconnect is a no-op).  \<open>disconnect\<close> returns the LiveSession as it was, the
  state of the remote connection included; \<open>stopSession\<close>, its only caller, leaves the
  session ref as it was and writes nothing to the console; and no event other than a close
  by the remote side changes the status, which is what the component's \<open>onClose\<close> does.
\<close>

theorem disconnect_noop:
  "disconnect ls = ls \<and>
   sessionRef (step U Stop s) = sessionRef s \<and>
   (e \<noteq> RemoteClose \<longrightarrow> status (step U e s) = status s) \<and>
   console (step U Stop s) = console s"
proof (intro conjI impI)
  show "disconnect ls = ls" by (rule disconnect_id)
next
  obtain s' where s': "stopSession s = Inr s'" using stopSession_total by blast
  show "sessionRef (step U Stop s) = sessionRef s"
    using s' by (auto simp: stopSession_def and_then_def stop_tracks_def processor_disconnect_def
      close_input_def close_output_def disconnect_id split: option.splits if_splits)
next
  assume ne: "e \<noteq> RemoteClose"
  obtain s' where s': "stopSession s = Inr s'" using stopSession_total by blast
  from ne show "status (step U e s) = status s"
    using stopSession_frame[OF s'] s'
    by (cases e)
       (auto simp: playAudio_def playAudio_resume_def audioprocess_def onerror_def Let_def
             split: option.splits sum.splits)
next
  obtain s' where s': "stopSession s = Inr s'" using stopSession_total by blast
  show "console (step U Stop s) = console s"
    using stopSession_frame[OF s'] s' by simp
qed

theorem disconnect_noop_witness:
  "Stop \<noteq> RemoteClose \<and>
   status (step demo_utils Stop demo_active) = Active \<and>
   console (step demo_utils Stop demo_active) = [''Live Session Opened''] \<and>
   status (step demo_utils RemoteClose demo_active) = Disconnected \<and>
   console (step demo_utils RemoteClose demo_active) =
     [''Live Session Opened'', ''Live Session Closed'']"
  using disconnect_noop[where ls = new_LiveSession and U = demo_utils and s = demo_active and e = Stop]
  by (simp add: demo_active_eq onclose_def)

text \<open>
  C10 (send before connect).  While \<open>sessionPromise\<close> is null, \<open>sendAudio\<close> returns the
  session unchanged: nothing is encoded, suspended or sent, and nothing is thrown.
\<close>

theorem sendAudio_before_connect:
  "sessionPromise ls = None \<Longrightarrow>
   sendAudio U pcmData ls = ls \<and> session_run U [SendAudio pcmData, Resume] ls = ls"
  by (simp add: sendAudio_def sendAudio_resume_def split: list.splits)

theorem sendAudio_before_connect_witness:
  "sessionPromise new_LiveSession = None \<and>
   sendAudio demo_utils [1, -1] new_LiveSession = new_LiveSession \<and>
   sent (session_run demo_utils [SendAudio [1, -1], Resume] new_LiveSession) = []"
  using sendAudio_before_connect[of new_LiveSession demo_utils "[1, -1]"]
  by (simp add: new_LiveSession_def sendAudio_def sendAudio_resume_def)

end
